theory Spec2Isabelle
  imports Complex_Main
begin

section \<open>Python values, floats and exceptions\<close>

text \<open>
  The exceptions that the modelled functions can raise. \<open>Exception\<close> carries the message of
  an exception raised by a collaborator (the exchange client, the socket); every constructor
  stands for a subclass of Python's \<open>Exception\<close>.
\<close>

datatype exception =
    IndexError
  | KeyError
  | TypeError
  | ValueError
  | ZeroDivisionError
  | Exception string

text \<open>
  A Python or numpy float. The finite values are idealised as reals (rounding, overflow and
  the sign of zero are not modelled); the three non-finite values of IEEE arithmetic are
  kept, because the program can produce them.
\<close>

datatype pyfloat = Fin real | PosInf | NegInf | NaN

text \<open>The dynamically typed values that \<open>interval_mins\<close> handles.\<close>

datatype pyval = PyInt int | PyStr string

section \<open>stream.py: the sliding window\<close>

text \<open>
  \<open>collections.deque(maxlen=window_size)\<close>: the items in arrival order (the leftmost first)
  and the bound. A negative \<open>maxlen\<close> is refused by the constructor with \<open>ValueError\<close>.
\<close>

record 'a Window =
  data :: "'a list"
  maxlen :: nat

definition Window_init :: "int \<Rightarrow> exception + 'a Window" where
  "Window_init window_size =
     (if window_size < 0 then Inl ValueError
      else Inr \<lparr>data = [], maxlen = nat window_size\<rparr>)"

definition is_full :: "'a Window \<Rightarrow> bool" where
  "is_full w = (length (data w) = maxlen w)"

text \<open>\<open>deque.popleft()\<close> raises \<open>IndexError\<close> on an empty deque.\<close>

definition popleft :: "'a Window \<Rightarrow> exception + ('a \<times> 'a Window)" where
  "popleft w =
     (case data w of
        [] \<Rightarrow> Inl IndexError
      | x # rest \<Rightarrow> Inr (x, w\<lparr>data := rest\<rparr>))"

text \<open>
  \<open>deque.append(elem)\<close>: a bounded deque that is full discards its leftmost item; one of
  bound 0 stays empty.
\<close>

definition deque_append :: "'a Window \<Rightarrow> 'a \<Rightarrow> 'a Window" where
  "deque_append w elem =
     (if length (data w) = maxlen w
      then (if maxlen w = 0 then w else w\<lparr>data := tl (data w) @ [elem]\<rparr>)
      else w\<lparr>data := data w @ [elem]\<rparr>)"

text \<open>
  \<open>Window.on_tick\<close>: the value returned or the exception raised, and the window afterwards.
\<close>

definition Window_on_tick :: "'a Window \<Rightarrow> 'a \<Rightarrow> (exception + 'a option) \<times> 'a Window" where
  "Window_on_tick w elem =
     (if is_full w
      then (case popleft w of
              Inl e \<Rightarrow> (Inl e, w)
            | Inr (old_elem, w') \<Rightarrow> (Inr (Some old_elem), deque_append w' elem))
      else (Inr None, deque_append w elem))"

text \<open>Pushing a sequence, one element after the other; an exception ends the run.\<close>

fun Window_feed :: "'a Window \<Rightarrow> 'a list \<Rightarrow> exception + 'a Window" where
  "Window_feed w [] = Inr w"
| "Window_feed w (x # xs) =
     (case Window_on_tick w x of
        (Inl e, _) \<Rightarrow> Inl e
      | (Inr _, w') \<Rightarrow> Window_feed w' xs)"

section \<open>Float arithmetic as Python and numpy do it\<close>

text \<open>
  Python's \<open>/\<close> on two floats raises \<open>ZeroDivisionError\<close> when the divisor is zero, whatever
  the dividend; otherwise it follows IEEE arithmetic.
\<close>

fun truediv :: "pyfloat \<Rightarrow> pyfloat \<Rightarrow> exception + pyfloat" where
  "truediv a (Fin y) =
     (if y = 0 then Inl ZeroDivisionError
      else (case a of
              Fin x \<Rightarrow> Inr (Fin (x / y))
            | PosInf \<Rightarrow> Inr (if 0 < y then PosInf else NegInf)
            | NegInf \<Rightarrow> Inr (if 0 < y then NegInf else PosInf)
            | NaN \<Rightarrow> Inr NaN))"
| "truediv a NaN = Inr NaN"
| "truediv (Fin x) b = Inr (Fin 0)"
| "truediv a b = Inr NaN"

text \<open>
  \<open>np.log\<close> never raises: at zero it warns and returns minus infinity, below zero it warns
  and returns NaN.
\<close>

fun np_log :: "pyfloat \<Rightarrow> pyfloat" where
  "np_log (Fin x) = (if 0 < x then Fin (ln x) else if x = 0 then NegInf else NaN)"
| "np_log PosInf = PosInf"
| "np_log NegInf = NaN"
| "np_log NaN = NaN"

fun fmul :: "pyfloat \<Rightarrow> pyfloat \<Rightarrow> pyfloat" where
  "fmul NaN b = NaN"
| "fmul a NaN = NaN"
| "fmul (Fin x) (Fin y) = Fin (x * y)"
| "fmul (Fin x) PosInf = (if x = 0 then NaN else if 0 < x then PosInf else NegInf)"
| "fmul (Fin x) NegInf = (if x = 0 then NaN else if 0 < x then NegInf else PosInf)"
| "fmul PosInf (Fin y) = (if y = 0 then NaN else if 0 < y then PosInf else NegInf)"
| "fmul NegInf (Fin y) = (if y = 0 then NaN else if 0 < y then NegInf else PosInf)"
| "fmul PosInf PosInf = PosInf"
| "fmul PosInf NegInf = NegInf"
| "fmul NegInf PosInf = NegInf"
| "fmul NegInf NegInf = PosInf"

fun fadd :: "pyfloat \<Rightarrow> pyfloat \<Rightarrow> pyfloat" where
  "fadd NaN b = NaN"
| "fadd a NaN = NaN"
| "fadd (Fin x) (Fin y) = Fin (x + y)"
| "fadd PosInf NegInf = NaN"
| "fadd NegInf PosInf = NaN"
| "fadd (Fin x) b = b"
| "fadd a b = a"

fun np_sign :: "pyfloat \<Rightarrow> pyfloat" where
  "np_sign (Fin x) = Fin (sgn x)"
| "np_sign PosInf = Fin 1"
| "np_sign NegInf = Fin (- 1)"
| "np_sign NaN = NaN"

text \<open>
  \<open>np.dot\<close> of the feature with a scalar weight is their product. The feature may be
  \<open>None\<close>: numpy then multiplies objects and raises \<open>TypeError\<close>.
\<close>

definition np_dot :: "pyfloat option \<Rightarrow> pyfloat \<Rightarrow> exception + pyfloat" where
  "np_dot x w = (case x of None \<Rightarrow> Inl TypeError | Some v \<Rightarrow> Inr (fmul v w))"

section \<open>stream.py: the log return of the last two prices\<close>

record LogReturn =
  price :: "pyfloat Window"

definition LogReturn_init :: "exception + LogReturn" where
  "LogReturn_init = (case Window_init 2 of Inl e \<Rightarrow> Inl e | Inr w \<Rightarrow> Inr \<lparr>price = w\<rparr>)"

text \<open>\<open>d[i]\<close> on a deque, for an index that is not negative.\<close>

definition getitem :: "'a Window \<Rightarrow> nat \<Rightarrow> exception + 'a" where
  "getitem w i = (if i < length (data w) then Inr (data w ! i) else Inl IndexError)"

text \<open>
  \<open>LogReturn.on_tick\<close>. The push into the window has happened when the division raises, so
  the state after the call is returned beside the outcome in every case.
\<close>

definition LogReturn_on_tick ::
  "LogReturn \<Rightarrow> pyfloat \<Rightarrow> (exception + pyfloat option) \<times> LogReturn" where
  "LogReturn_on_tick self p =
     (case Window_on_tick (price self) p of
        (Inl e, w) \<Rightarrow> (Inl e, self\<lparr>price := w\<rparr>)
      | (Inr _, w) \<Rightarrow>
          (if is_full w
           then (case getitem w 1 of
                   Inl e \<Rightarrow> (Inl e, self\<lparr>price := w\<rparr>)
                 | Inr newest \<Rightarrow>
                     (case getitem w 0 of
                        Inl e \<Rightarrow> (Inl e, self\<lparr>price := w\<rparr>)
                      | Inr oldest \<Rightarrow>
                          (case truediv newest oldest of
                             Inl e \<Rightarrow> (Inl e, self\<lparr>price := w\<rparr>)
                           | Inr ratio \<Rightarrow> (Inr (Some (np_log ratio)), self\<lparr>price := w\<rparr>))))
           else (Inr None, self\<lparr>price := w\<rparr>)))"

text \<open>
  Successive calls of \<open>on_tick\<close> on a sequence of prices: the outcome of each call, and the
  state after the last.
\<close>

fun LogReturn_run ::
  "LogReturn \<Rightarrow> pyfloat list \<Rightarrow> (exception + pyfloat option) list \<times> LogReturn" where
  "LogReturn_run self [] = ([], self)"
| "LogReturn_run self (p # ps) =
     (case LogReturn_on_tick self p of
        (r, self') \<Rightarrow> (case LogReturn_run self' ps of (rs, self'') \<Rightarrow> (r # rs, self'')))"

section \<open>models.py: the linear model\<close>

record 'v LinReg =
  weights :: 'v
  bias :: 'v

text \<open>\<open>LinReg.predict\<close> on the feature that \<open>LogReturn.on_tick\<close> returned.\<close>

definition predict :: "pyfloat LinReg \<Rightarrow> pyfloat option \<Rightarrow> exception + pyfloat" where
  "predict self x =
     (case np_dot x (weights self) of
        Inl e \<Rightarrow> Inl e
      | Inr d \<Rightarrow> Inr (fadd d (bias self)))"

section \<open>strategy.py: decision and execution\<close>

record Order =
  coin :: string
  sz :: pyfloat
  is_buy :: bool

datatype TickReplay = TickReplay string pyfloat bool bool pyfloat pyfloat

text \<open>
  The exchange client is a collaborator: its two calls are parameters, each a function of
  the exchange's own state \<open>'x\<close> that returns a report or raises.
\<close>

record 'x Exchange =
  market_close :: "string \<Rightarrow> 'x \<Rightarrow> (exception + string) \<times> 'x"
  market_open :: "string \<Rightarrow> bool \<Rightarrow> pyfloat \<Rightarrow> 'x \<Rightarrow> (exception + string) \<times> 'x"

text \<open>The fields of the strategy that are set once, by the constructor.\<close>

record 'x BasicTakerStrat =
  exchange :: "'x Exchange"
  self_coin :: string
  model :: "pyfloat LinReg"
  self_sz :: pyfloat
  leverage :: pyfloat

datatype call = MarketClose string | MarketOpen string bool pyfloat

datatype line =
    OnTick pyfloat
  | CalculatedLogReturn "pyfloat option"
  | Forecast pyfloat
  | OrderLine Order
  | PositionClosed string
  | ErrorClosePosition exception
  | OrderOpened string
  | ErrorOpeningPosition exception

text \<open>
  What a call of the strategy can change: its feature calculator \<open>self.lag\<close>, the state of
  the exchange, the calls made on the exchange so far and the lines printed so far.
\<close>

record 'x state =
  lag :: LogReturn
  exch :: 'x
  calls :: "call list"
  stdout :: "line list"

type_synonym ('x, 'a) prog = "'x state \<Rightarrow> (exception + 'a) \<times> 'x state"

definition seq :: "('x, 'a) prog \<Rightarrow> ('a \<Rightarrow> ('x, 'b) prog) \<Rightarrow> ('x, 'b) prog" where
  "seq m f s = (case m s of (Inl e, s') \<Rightarrow> (Inl e, s') | (Inr a, s') \<Rightarrow> f a s')"

definition try_except :: "('x, 'a) prog \<Rightarrow> (exception \<Rightarrow> ('x, 'a) prog) \<Rightarrow> ('x, 'a) prog" where
  "try_except m handler s = (case m s of (Inl e, s') \<Rightarrow> handler e s' | (Inr a, s') \<Rightarrow> (Inr a, s'))"

definition print :: "line \<Rightarrow> ('x, unit) prog" where
  "print l s = (Inr (), s\<lparr>stdout := stdout s @ [l]\<rparr>)"

definition raise_or :: "exception + 'a \<Rightarrow> ('x, 'a) prog" where
  "raise_or r s = (r, s)"

definition call_market_close :: "'x BasicTakerStrat \<Rightarrow> string \<Rightarrow> ('x, string) prog" where
  "call_market_close self c s =
     (case market_close (exchange self) c (exch s) of
        (r, x') \<Rightarrow> (r, s\<lparr>exch := x', calls := calls s @ [MarketClose c]\<rparr>))"

definition call_market_open ::
  "'x BasicTakerStrat \<Rightarrow> string \<Rightarrow> bool \<Rightarrow> pyfloat \<Rightarrow> ('x, string) prog" where
  "call_market_open self c b z s =
     (case market_open (exchange self) c b z (exch s) of
        (r, x') \<Rightarrow> (r, s\<lparr>exch := x', calls := calls s @ [MarketOpen c b z]\<rparr>))"

definition strategy :: "'x BasicTakerStrat \<Rightarrow> pyfloat \<Rightarrow> Order" where
  "strategy self y_hat =
     \<lparr>coin = self_coin self, sz = self_sz self, is_buy = (np_sign y_hat = Fin 1)\<rparr>"

definition execute :: "'x BasicTakerStrat \<Rightarrow> Order \<Rightarrow> ('x, unit) prog" where
  "execute self order =
     seq (try_except
            (seq (call_market_close self (self_coin self)) (\<lambda>r. print (PositionClosed r)))
            (\<lambda>e. print (ErrorClosePosition e)))
         (\<lambda>_. try_except
                 (seq (call_market_open self (self_coin self) (is_buy order) (sz order))
                      (\<lambda>r. print (OrderOpened r)))
                 (\<lambda>e. print (ErrorOpeningPosition e)))"

definition lag_on_tick :: "pyfloat \<Rightarrow> ('x, pyfloat option) prog" where
  "lag_on_tick p s = (case LogReturn_on_tick (lag s) p of (r, l') \<Rightarrow> (r, s\<lparr>lag := l'\<rparr>))"

text \<open>
  \<open>BasicTakerStrat.on_tick\<close>. The body has no \<open>return\<close> statement: a call that does not raise
  returns \<open>None\<close>.
\<close>

definition on_tick :: "'x BasicTakerStrat \<Rightarrow> pyfloat \<Rightarrow> ('x, TickReplay option) prog" where
  "on_tick self p =
     seq (print (OnTick p)) (\<lambda>_.
     seq (lag_on_tick p) (\<lambda>lg.
     seq (print (CalculatedLogReturn lg)) (\<lambda>_.
     seq (raise_or (predict (model self) lg)) (\<lambda>y_hat.
     seq (print (Forecast y_hat)) (\<lambda>_.
     seq (print (OrderLine (strategy self y_hat))) (\<lambda>_.
     seq (execute self (strategy self y_hat)) (\<lambda>_.
     raise_or (Inr None))))))))"

section \<open>main.py: configuration, interval and scheduler delay\<close>

text \<open>
  \<open>settings.params\<close> is a dictionary that the program reads and never writes. An entry is a
  text (\<open>'sym'\<close>, \<open>'interval'\<close>) or a nested dictionary (\<open>'model'\<close>); the type \<open>'v\<close> of the
  model's numbers is left open.
\<close>

datatype 'v setting = Text string | Section "string \<Rightarrow> 'v option"

text \<open>\<open>d[k]\<close> on a dictionary raises \<open>KeyError\<close> for a missing key.\<close>

definition dict_getitem :: "('k \<Rightarrow> 'v option) \<Rightarrow> 'k \<Rightarrow> exception + 'v" where
  "dict_getitem d k = (case d k of None \<Rightarrow> Inl KeyError | Some v \<Rightarrow> Inr v)"

text \<open>
  \<open>create_model\<close>. Indexing a text with the key \<open>'weight'\<close> raises \<open>TypeError\<close>. The second
  lookup of the source is again of the key \<open>'weight'\<close>.
\<close>

definition create_model :: "(string \<Rightarrow> 'v setting option) \<Rightarrow> exception + 'v LinReg" where
  "create_model params =
     (case dict_getitem params ''model'' of
        Inl e \<Rightarrow> Inl e
      | Inr (Text t) \<Rightarrow> Inl TypeError
      | Inr (Section model_params) \<Rightarrow>
          (case dict_getitem model_params ''weight'' of
             Inl e \<Rightarrow> Inl e
           | Inr w \<Rightarrow>
               (case dict_getitem model_params ''weight'' of
                  Inl e \<Rightarrow> Inl e
                | Inr b \<Rightarrow> Inr \<lparr>weights = w, bias = b\<rparr>)))"

text \<open>\<open>s * n\<close> on a Python string repeats it; a count below 1 gives the empty string.\<close>

definition str_mul :: "string \<Rightarrow> int \<Rightarrow> string" where
  "str_mul s n = concat (replicate (nat n) s)"

text \<open>
  \<open>interval_mins\<close>. \<open>interval[-1]\<close> raises \<open>IndexError\<close> on the empty string; \<open>interval[:-1]\<close>
  is a string, and the source multiplies and returns it as it is.
\<close>

definition interval_mins :: "string \<Rightarrow> exception + pyval" where
  "interval_mins interval =
     (if interval = [] then Inl IndexError
      else (let dur = last interval in
            if dur = CHR ''h'' then Inr (PyStr (str_mul (butlast interval) 60))
            else if dur = CHR ''m'' then Inr (PyStr (butlast interval))
            else if dur = CHR ''d'' then Inr (PyStr (str_mul (str_mul (butlast interval) 24) 60))
            else Inl ValueError))"

text \<open>
  \<open>max(1, no_mins)\<close> compares its arguments: a string against the integer 1 raises
  \<open>TypeError\<close>.
\<close>

definition period_mins :: "pyval \<Rightarrow> exception + int" where
  "period_mins no_mins =
     (case no_mins of PyInt n \<Rightarrow> Inr (max 1 n) | PyStr t \<Rightarrow> Inl TypeError)"

text \<open>The fields of \<open>datetime.now(timezone.utc)\<close> that the scheduler reads.\<close>

record datetime =
  hour :: int
  minute :: int
  second :: int
  microsecond :: int

text \<open>
  One pass of the loop of \<open>trade_periodically\<close> up to its \<open>await\<close>: the seconds to the next
  boundary, and the argument handed to \<open>asyncio.sleep\<close>. Seconds are reals here where the
  source has floats.
\<close>

definition seconds_until_next :: "int \<Rightarrow> datetime \<Rightarrow> real" where
  "seconds_until_next period now =
     (let mins_past = minute now mod period
      in real_of_int ((period - mins_past) * 60)
           - real_of_int (second now)
           - real_of_int (microsecond now) / 1000000)"

definition sleep_duration :: "int \<Rightarrow> datetime \<Rightarrow> real" where
  "sleep_duration period now = seconds_until_next period now + 1 / 10000"

text \<open>
  \<open>trade_periodically\<close> from its first line to its first \<open>await\<close>: the duration of the first
  sleep, or the exception that ends the task before it.
\<close>

definition first_sleep :: "string \<Rightarrow> datetime \<Rightarrow> exception + real" where
  "first_sleep interval now =
     (case interval_mins interval of
        Inl e \<Rightarrow> Inl e
      | Inr no_mins \<Rightarrow>
          (case period_mins no_mins of
             Inl e \<Rightarrow> Inl e
           | Inr period \<Rightarrow> Inr (sleep_duration period now)))"

section \<open>main.py: the reconnect loop and its timer task\<close>

text \<open>
  The event loop runs one coroutine at a time, and another task runs only while \<open>main\<close> is
  suspended at an \<open>await\<close>. \<open>main\<close> is suspended in two places: inside the \<open>try\<close> block of
  \<open>connect_and_listen\<close> (connecting, sending, waiting for a message) and in
  \<open>asyncio.sleep(backoff)\<close>. The program counter says where \<open>main\<close> is:
  \<^item> \<open>LoopHead\<close>: about to call \<open>connect_and_listen\<close>;
  \<^item> \<open>Listening\<close>: inside its \<open>try\<close> block, the timer task created;
  \<^item> \<open>Backoff\<close>: in the \<open>except\<close> branch, sleeping;
  \<^item> \<open>Stopped\<close>: an exception that the \<open>except\<close> clause does not name has left the loop.
\<close>

datatype pc = LoopHead | Listening | Backoff | Stopped

text \<open>
  How the \<open>try\<close> block of \<open>connect_and_listen\<close> ends: the message loop ends and the function
  returns, or \<open>ConnectionClosed\<close>/\<open>OSError\<close> is raised, or another exception is.
\<close>

datatype outcome = CleanClose | Disconnected | OtherError

text \<open>
  Timer tasks are numbered in the order of their creation. A task is live from
  \<open>asyncio.create_task\<close> until its coroutine ends or \<open>cancel()\<close> is called on it: the only
  \<open>await\<close> of \<open>trade_periodically\<close> is its sleep, outside any \<open>try\<close>, so a cancelled task does
  not run its loop body again. \<open>timer_task\<close> is the local variable of the current call of
  \<open>connect_and_listen\<close>; \<open>fired\<close> records which task's wake-up ran, in order.
\<close>

record loop_state =
  pc :: pc
  live :: "nat list"
  created :: nat
  timer_task :: nat
  backoff :: int
  fired :: "nat list"

definition initial :: loop_state where
  "initial = \<lparr>pc = LoopHead, live = [], created = 0, timer_task = 0, backoff = 1, fired = []\<rparr>"

datatype event =
    Spawn
  | Fire nat
  | TimerEnds nat
  | Exit outcome
  | Wake

text \<open>
  One step, or \<open>None\<close> where the event cannot happen.
  \<^item> \<open>Spawn\<close>: \<open>main\<close> calls \<open>connect_and_listen\<close>, whose first statement creates the timer task.
  \<^item> \<open>Fire t\<close>: the live task \<open>t\<close> wakes from its sleep and runs the trading callback.
  \<^item> \<open>TimerEnds t\<close>: the coroutine of the live task \<open>t\<close> ends with an exception of its own.
  \<^item> \<open>Exit out\<close>: the \<open>try\<close> block ends; the \<open>finally\<close> clause cancels \<open>timer_task\<close> on every
    path; a clean exit resets the backoff to 1.
  \<^item> \<open>Wake\<close>: the backoff sleep is over; the backoff doubles, capped at 30.
\<close>

fun step :: "loop_state \<Rightarrow> event \<Rightarrow> loop_state option" where
  "step s Spawn =
     (if pc s = LoopHead
      then Some (s\<lparr>pc := Listening, live := live s @ [created s],
                   timer_task := created s, created := Suc (created s)\<rparr>)
      else None)"
| "step s (Fire t) =
     (if t \<in> set (live s) \<and> (pc s = Listening \<or> pc s = Backoff)
      then Some (s\<lparr>fired := fired s @ [t]\<rparr>)
      else None)"
| "step s (TimerEnds t) =
     (if t \<in> set (live s) \<and> (pc s = Listening \<or> pc s = Backoff)
      then Some (s\<lparr>live := removeAll t (live s)\<rparr>)
      else None)"
| "step s (Exit out) =
     (if pc s = Listening
      then Some (s\<lparr>live := removeAll (timer_task s) (live s),
                   pc := (case out of
                            CleanClose \<Rightarrow> LoopHead
                          | Disconnected \<Rightarrow> Backoff
                          | OtherError \<Rightarrow> Stopped),
                   backoff := (case out of CleanClose \<Rightarrow> 1 | _ \<Rightarrow> backoff s)\<rparr>)
      else None)"
| "step s Wake =
     (if pc s = Backoff
      then Some (s\<lparr>pc := LoopHead, backoff := min (backoff s * 2) 30\<rparr>)
      else None)"

fun run :: "loop_state \<Rightarrow> event list \<Rightarrow> loop_state option" where
  "run s [] = Some s"
| "run s (e # es) = (case step s e of None \<Rightarrow> None | Some s' \<Rightarrow> run s' es)"

text \<open>What holds of the live tasks at every point: none, or only the current one.\<close>

definition one_timer :: "loop_state \<Rightarrow> bool" where
  "one_timer s = (live s = [] \<or> (pc s = Listening \<and> live s = [timer_task s]))"

section \<open>Collaborators used in the examples\<close>

text \<open>
  Two exchanges without a state of their own: one accepts every call, the other raises on
  every call. And a strategy on each, trading 0.0002 BTC as \<open>create_strategy\<close> sets it up.
\<close>

definition accept_close :: "string \<Rightarrow> unit \<Rightarrow> (exception + string) \<times> unit" where
  "accept_close c x = (Inr ''closed'', x)"

definition accept_open :: "string \<Rightarrow> bool \<Rightarrow> pyfloat \<Rightarrow> unit \<Rightarrow> (exception + string) \<times> unit" where
  "accept_open c b z x = (Inr ''opened'', x)"

definition refuse_close :: "string \<Rightarrow> unit \<Rightarrow> (exception + string) \<times> unit" where
  "refuse_close c x = (Inl (Exception ''close refused''), x)"

definition refuse_open :: "string \<Rightarrow> bool \<Rightarrow> pyfloat \<Rightarrow> unit \<Rightarrow> (exception + string) \<times> unit" where
  "refuse_open c b z x = (Inl (Exception ''open refused''), x)"

definition btc_strat :: "pyfloat \<Rightarrow> pyfloat \<Rightarrow> unit BasicTakerStrat" where
  "btc_strat w b =
     \<lparr>exchange = \<lparr>market_close = accept_close, market_open = accept_open\<rparr>,
      self_coin = ''BTC'', model = \<lparr>weights = w, bias = b\<rparr>,
      self_sz = Fin (2 / 10000), leverage = Fin 1\<rparr>"

definition btc_strat_refused :: "unit BasicTakerStrat" where
  "btc_strat_refused =
     \<lparr>exchange = \<lparr>market_close = refuse_close, market_open = refuse_open\<rparr>,
      self_coin = ''BTC'', model = \<lparr>weights = Fin 1, bias = Fin 0\<rparr>,
      self_sz = Fin (2 / 10000), leverage = Fin 1\<rparr>"

definition state_with :: "pyfloat list \<Rightarrow> unit state" where
  "state_with ps = \<lparr>lag = \<lparr>price = \<lparr>data = ps, maxlen = 2\<rparr>\<rparr>, exch = (), calls = [], stdout = []\<rparr>"

section \<open>The sliding window: bound and first-in-first-out eviction\<close>

lemma Window_feed_snoc:
  "Window_feed w (xs @ [x]) =
     (case Window_feed w xs of
        Inl e \<Rightarrow> Inl e
      | Inr w' \<Rightarrow> (case Window_on_tick w' x of (Inl e, _) \<Rightarrow> Inl e | (Inr _, w'') \<Rightarrow> Inr w''))"
  by (induction xs arbitrary: w) (auto split: sum.splits prod.splits)

lemma Window_on_tick_full:
  assumes "length (data w) = maxlen w" and "0 < maxlen w"
  shows "Window_on_tick w x = (Inr (Some (hd (data w))), w\<lparr>data := tl (data w) @ [x]\<rparr>)"
proof -
  from assms obtain y ys where ys: "data w = y # ys"
    by (cases "data w") auto
  with assms show ?thesis
    by (simp add: Window_on_tick_def is_full_def popleft_def deque_append_def)
qed

lemma Window_on_tick_not_full:
  assumes "length (data w) \<noteq> maxlen w"
  shows "Window_on_tick w x = (Inr None, w\<lparr>data := data w @ [x]\<rparr>)"
  using assms by (simp add: Window_on_tick_def is_full_def deque_append_def)

lemma drop_window_step:
  assumes "0 < n" and "n \<le> length xs"
  shows "tl (drop (length xs - n) xs) @ [x] = drop (Suc (length xs) - n) (xs @ [x])"
proof -
  have "tl (drop (length xs - n) xs) = drop (Suc (length xs - n)) xs"
    by (simp add: drop_Suc tl_drop)
  moreover have "Suc (length xs - n) = Suc (length xs) - n"
    using assms by simp
  ultimately show ?thesis
    using assms by simp
qed

lemma Window_feed_contents:
  assumes "0 < n"
  shows "Window_feed \<lparr>data = [], maxlen = n\<rparr> xs
           = Inr \<lparr>data = drop (length xs - n) xs, maxlen = n\<rparr>"
proof (induction xs rule: rev_induct)
  case Nil
  show ?case by simp
next
  case (snoc x xs)
  let ?w = "\<lparr>data = drop (length xs - n) xs, maxlen = n\<rparr>"
  show ?case
  proof (cases "n \<le> length xs")
    case True
    then have full: "length (data ?w) = maxlen ?w" by simp
    have "Window_on_tick ?w x = (Inr (Some (hd (data ?w))), ?w\<lparr>data := tl (data ?w) @ [x]\<rparr>)"
      using Window_on_tick_full [OF full] assms by simp
    moreover have "tl (drop (length xs - n) xs) @ [x] = drop (Suc (length xs) - n) (xs @ [x])"
      using drop_window_step [OF assms True] .
    ultimately show ?thesis
      using snoc by (simp add: Window_feed_snoc)
  next
    case False
    then have nf: "length (data ?w) \<noteq> maxlen ?w" by simp
    have "Window_on_tick ?w x = (Inr None, ?w\<lparr>data := data ?w @ [x]\<rparr>)"
      using Window_on_tick_not_full [OF nf] .
    moreover have "Suc (length xs) - n = 0" "length xs - n = 0"
      using False by simp_all
    ultimately show ?thesis
      using snoc by (simp add: Window_feed_snoc)
  qed
qed

text \<open>
  C7. For every capacity \<open>N \<ge> 1\<close> and every input sequence \<open>xs\<close> pushed into a fresh window:
  the pushes all return, the window then holds the last \<open>N\<close> elements of \<open>xs\<close> in arrival
  order, and one more push of \<open>x\<close> leaves at most \<open>N\<close> elements. If the window held \<open>N\<close>
  elements, the push returns the oldest element still held (the one that arrived \<open>N\<close> pushes
  ago) and the window holds the rest followed by \<open>x\<close>; if it held fewer, the push returns
  absent and the window holds the same elements followed by \<open>x\<close>.
\<close>

theorem Window_bounded_fifo:
  assumes "1 \<le> N"
  shows "\<exists>w0 w. Window_init N = Inr w0 \<and> Window_feed w0 xs = Inr w
           \<and> maxlen w = nat N
           \<and> data w = drop (length xs - nat N) xs
           \<and> length (data (snd (Window_on_tick w x))) \<le> nat N
           \<and> (if length (data w) = nat N
               then Window_on_tick w x
                      = (Inr (Some (xs ! (length xs - nat N))), w\<lparr>data := tl (data w) @ [x]\<rparr>)
               else length (data w) < nat N
                    \<and> Window_on_tick w x = (Inr None, w\<lparr>data := data w @ [x]\<rparr>))"
proof -
  let ?n = "nat N"
  let ?w = "\<lparr>data = drop (length xs - ?n) xs, maxlen = ?n\<rparr> :: 'a Window"
  have n: "0 < ?n" using assms by simp
  have init: "Window_init N = Inr (\<lparr>data = [], maxlen = ?n\<rparr> :: 'a Window)"
    using assms by (simp add: Window_init_def)
  have feed: "Window_feed (\<lparr>data = [], maxlen = ?n\<rparr> :: 'a Window) xs = Inr ?w"
    using Window_feed_contents [OF n] .
  have step: "length (data (snd (Window_on_tick ?w x))) \<le> ?n
           \<and> (if length (data ?w) = ?n
               then Window_on_tick ?w x
                      = (Inr (Some (xs ! (length xs - ?n))), ?w\<lparr>data := tl (data ?w) @ [x]\<rparr>)
               else length (data ?w) < ?n
                    \<and> Window_on_tick ?w x = (Inr None, ?w\<lparr>data := data ?w @ [x]\<rparr>))"
  proof (cases "?n \<le> length xs")
    case True
    then have full: "length (data ?w) = maxlen ?w" by simp
    have hd: "hd (data ?w) = xs ! (length xs - ?n)"
      using True n by (simp add: hd_drop_conv_nth)
    have "Window_on_tick ?w x = (Inr (Some (hd (data ?w))), ?w\<lparr>data := tl (data ?w) @ [x]\<rparr>)"
      using Window_on_tick_full [OF full] n by simp
    with hd True n show ?thesis by simp
  next
    case False
    then have nf: "length (data ?w) \<noteq> maxlen ?w" by simp
    have "Window_on_tick ?w x = (Inr None, ?w\<lparr>data := data ?w @ [x]\<rparr>)"
      using Window_on_tick_not_full [OF nf] .
    with False show ?thesis by simp
  qed
  have m: "maxlen ?w = ?n" by simp
  have d: "data ?w = drop (length xs - ?n) xs" by simp
  from init feed m d step show ?thesis
    by blast
qed

theorem Window_bounded_fifo_witness:
  "(1::int) \<le> 2 \<and>
   (\<exists>w0 w. Window_init 2 = Inr w0 \<and> Window_feed w0 [10, 20, 30 :: nat] = Inr w
      \<and> maxlen w = nat 2
      \<and> data w = drop (length [10, 20, 30 :: nat] - nat 2) [10, 20, 30]
      \<and> length (data (snd (Window_on_tick w 40))) \<le> nat 2
      \<and> (if length (data w) = nat 2
          then Window_on_tick w 40
                 = (Inr (Some ([10, 20, 30] ! (length [10, 20, 30 :: nat] - nat 2))),
                    w\<lparr>data := tl (data w) @ [40]\<rparr>)
          else length (data w) < nat 2
               \<and> Window_on_tick w 40 = (Inr None, w\<lparr>data := data w @ [40]\<rparr>)))"
proof -
  have h: "(1::int) \<le> 2" by simp
  show ?thesis
    using h Window_bounded_fifo [OF h, of "[10, 20, 30 :: nat]" 40] by blast
qed

section \<open>The log return: outcome of every tick\<close>

lemma LogReturn_run_snoc:
  "LogReturn_run l (ps @ [p]) =
     (case LogReturn_run l ps of
        (rs, l') \<Rightarrow> (case LogReturn_on_tick l' p of (r, l'') \<Rightarrow> (rs @ [r], l'')))"
  by (induction ps arbitrary: l) (auto split: prod.splits)

lemma LogReturn_on_tick_empty:
  "LogReturn_on_tick \<lparr>price = \<lparr>data = [], maxlen = 2\<rparr>\<rparr> p
     = (Inr None, \<lparr>price = \<lparr>data = [p], maxlen = 2\<rparr>\<rparr>)"
  by (simp add: LogReturn_on_tick_def Window_on_tick_def is_full_def deque_append_def)

lemma LogReturn_on_tick_one:
  "LogReturn_on_tick \<lparr>price = \<lparr>data = [a], maxlen = 2\<rparr>\<rparr> p
     = ((case truediv p a of Inl e \<Rightarrow> Inl e | Inr r \<Rightarrow> Inr (Some (np_log r))),
        \<lparr>price = \<lparr>data = [a, p], maxlen = 2\<rparr>\<rparr>)"
  by (simp add: LogReturn_on_tick_def Window_on_tick_def is_full_def deque_append_def getitem_def
           split: sum.splits)

lemma LogReturn_on_tick_two:
  "LogReturn_on_tick \<lparr>price = \<lparr>data = [z, a], maxlen = 2\<rparr>\<rparr> p
     = ((case truediv p a of Inl e \<Rightarrow> Inl e | Inr r \<Rightarrow> Inr (Some (np_log r))),
        \<lparr>price = \<lparr>data = [a, p], maxlen = 2\<rparr>\<rparr>)"
  by (simp add: LogReturn_on_tick_def Window_on_tick_def is_full_def deque_append_def getitem_def
                popleft_def
           split: sum.splits)

lemma LogReturn_on_tick_step:
  "LogReturn_on_tick \<lparr>price = \<lparr>data = drop (length ps - 2) ps, maxlen = 2\<rparr>\<rparr> p
     = ((if ps = [] then Inr None
         else (case truediv p (last ps) of Inl e \<Rightarrow> Inl e | Inr r \<Rightarrow> Inr (Some (np_log r)))),
        \<lparr>price = \<lparr>data = drop (Suc (length ps) - 2) (ps @ [p]), maxlen = 2\<rparr>\<rparr>)"
proof (cases ps rule: rev_cases)
  case Nil
  then show ?thesis by (simp add: LogReturn_on_tick_empty)
next
  case (snoc qs a)
  show ?thesis
  proof (cases qs rule: rev_cases)
    case Nil
    with snoc show ?thesis by (simp add: LogReturn_on_tick_one)
  next
    case (snoc rs z)
    with \<open>ps = qs @ [a]\<close> have ps: "ps = rs @ [z, a]" by simp
    have "drop (length ps - 2) ps = [z, a]"
      and "drop (Suc (length ps) - 2) (ps @ [p]) = [a, p]"
      and "last ps = a" and "ps \<noteq> []"
      using ps by simp_all
    then show ?thesis by (simp add: LogReturn_on_tick_two)
  qed
qed

lemma LogReturn_run_fresh:
  "LogReturn_run \<lparr>price = \<lparr>data = [], maxlen = 2\<rparr>\<rparr> ps
     = (map (\<lambda>k. if k = 0 then Inr None
                  else (case truediv (ps ! k) (ps ! (k - 1)) of
                          Inl e \<Rightarrow> Inl e
                        | Inr r \<Rightarrow> Inr (Some (np_log r))))
            [0 ..< length ps],
        \<lparr>price = \<lparr>data = drop (length ps - 2) ps, maxlen = 2\<rparr>\<rparr>)"
proof (induction ps rule: rev_induct)
  case Nil
  show ?case by simp
next
  case (snoc p ps)
  have old: "map (\<lambda>k. if k = 0 then Inr None
                       else (case truediv ((ps @ [p]) ! k) ((ps @ [p]) ! (k - 1)) of
                               Inl e \<Rightarrow> Inl e
                             | Inr r \<Rightarrow> Inr (Some (np_log r))))
                 [0 ..< length ps]
           = map (\<lambda>k. if k = 0 then Inr None
                       else (case truediv (ps ! k) (ps ! (k - 1)) of
                               Inl e \<Rightarrow> Inl e
                             | Inr r \<Rightarrow> Inr (Some (np_log r))))
                 [0 ..< length ps]"
    by (rule map_cong) (auto simp: nth_append)
  have new: "ps \<noteq> [] \<Longrightarrow> (ps @ [p]) ! (length ps - 1) = last ps"
    by (simp add: nth_append last_conv_nth)
  show ?case
    using new by (simp add: LogReturn_run_snoc snoc.IH LogReturn_on_tick_step old)
qed




text \<open>
  C4, as amended. When the older of the two prices in the window is 0 the feature computation
  raises \<open>ZeroDivisionError\<close>. When the newer price is 0 and the older one is finite and not
  zero (as after feeding 100 then 0), nothing is raised and the value returned is minus
  infinity.
\<close>

theorem LogReturn_zero_price:
  assumes "LogReturn_init = Inr l0" and "k < length ps" and "0 < k"
  shows "(ps ! (k - 1) = Fin 0 \<longrightarrow> fst (LogReturn_run l0 ps) ! k = Inl ZeroDivisionError)
       \<and> (\<forall>a. ps ! (k - 1) = Fin a \<and> a \<noteq> 0 \<and> ps ! k = Fin 0 \<longrightarrow>
            fst (LogReturn_run l0 ps) ! k = Inr (Some NegInf))"
proof -
  have l0: "l0 = \<lparr>price = \<lparr>data = [], maxlen = 2\<rparr>\<rparr>"
    using assms(1) by (simp add: LogReturn_init_def Window_init_def)
  have nth: "fst (LogReturn_run l0 ps) ! k =
               (case truediv (ps ! k) (ps ! (k - 1)) of
                  Inl e \<Rightarrow> Inl e
                | Inr r \<Rightarrow> Inr (Some (np_log r)))"
    using assms(2,3) by (simp add: l0 LogReturn_run_fresh del: upt_Suc)
  have zero_old: "ps ! (k - 1) = Fin 0 \<longrightarrow> fst (LogReturn_run l0 ps) ! k = Inl ZeroDivisionError"
  proof
    assume "ps ! (k - 1) = Fin 0"
    with nth show "fst (LogReturn_run l0 ps) ! k = Inl ZeroDivisionError" by simp
  qed
  have zero_new: "\<forall>a. ps ! (k - 1) = Fin a \<and> a \<noteq> 0 \<and> ps ! k = Fin 0 \<longrightarrow>
            fst (LogReturn_run l0 ps) ! k = Inr (Some NegInf)"
  proof (intro allI impI, elim conjE)
    fix a :: real
    assume "ps ! (k - 1) = Fin a" and "a \<noteq> 0" and "ps ! k = Fin 0"
    with nth show "fst (LogReturn_run l0 ps) ! k = Inr (Some NegInf)" by simp
  qed
  from zero_old zero_new show ?thesis by blast
qed

theorem LogReturn_zero_price_witness:
  "LogReturn_init = Inr \<lparr>price = \<lparr>data = [], maxlen = 2\<rparr>\<rparr>
   \<and> (1::nat) < length [Fin 0, Fin 100] \<and> (0::nat) < 1
   \<and> fst (LogReturn_run \<lparr>price = \<lparr>data = [], maxlen = 2\<rparr>\<rparr> [Fin 0, Fin 100]) ! 1
       = Inl ZeroDivisionError"
proof -
  let ?l = "\<lparr>price = \<lparr>data = [], maxlen = 2\<rparr>\<rparr>"
  let ?ps = "[Fin 0, Fin 100]"
  have i: "LogReturn_init = Inr ?l"
    by (simp add: LogReturn_init_def Window_init_def)
  have k: "(1::nat) < length ?ps" by simp
  have p: "(0::nat) < 1" by simp
  have "?ps ! (1 - 1) = Fin 0 \<longrightarrow> fst (LogReturn_run ?l ?ps) ! 1 = Inl ZeroDivisionError"
    using LogReturn_zero_price [OF i k p] by blast
  then have "fst (LogReturn_run ?l ?ps) ! 1 = Inl ZeroDivisionError"
    by simp
  with i k p show ?thesis by blast
qed

text \<open>
  The claim C4 as stated fails at its own example: after the prices 100 and 0 the older price
  is 100, the ratio is 0, and the second call returns minus infinity without raising.
\<close>

theorem LogReturn_zero_newest_counterexample:
  "LogReturn_init = Inr \<lparr>price = \<lparr>data = [], maxlen = 2\<rparr>\<rparr>
   \<and> fst (LogReturn_run \<lparr>price = \<lparr>data = [], maxlen = 2\<rparr>\<rparr> [Fin 100, Fin 0])
       = [Inr None, Inr (Some NegInf)]"
  by (simp add: LogReturn_init_def Window_init_def LogReturn_on_tick_empty LogReturn_on_tick_one)

section \<open>The strategy: absent feature, decision and execution\<close>

lemma execute_result:
  "execute self order s =
     (case market_close (exchange self) (self_coin self) (exch s) of
        (r1, x1) \<Rightarrow>
          (case market_open (exchange self) (self_coin self) (is_buy order) (sz order) x1 of
             (r2, x2) \<Rightarrow>
               (Inr (),
                s\<lparr>exch := x2,
                  calls := calls s @ [MarketClose (self_coin self),
                                      MarketOpen (self_coin self) (is_buy order) (sz order)],
                  stdout := stdout s @
                    [case r1 of Inl e \<Rightarrow> ErrorClosePosition e | Inr r \<Rightarrow> PositionClosed r,
                     case r2 of Inl e \<Rightarrow> ErrorOpeningPosition e | Inr r \<Rightarrow> OrderOpened r]\<rparr>)))"
  by (simp add: execute_def seq_def try_except_def print_def call_market_close_def
                call_market_open_def
           split: prod.splits sum.splits)

text \<open>
  C9. For every order, every exchange and every state: \<open>execute\<close> returns normally, it has
  called \<open>market_close\<close> and then \<open>market_open\<close> whatever the first call did, and it has
  printed one line for each call, the error line when the call raised.
\<close>

theorem execute_attempts_both_and_returns:
  "fst (execute self order s) = Inr ()
   \<and> calls (snd (execute self order s))
       = calls s @ [MarketClose (self_coin self),
                    MarketOpen (self_coin self) (is_buy order) (sz order)]
   \<and> stdout (snd (execute self order s))
       = stdout s @
           [case fst (market_close (exchange self) (self_coin self) (exch s)) of
              Inl e \<Rightarrow> ErrorClosePosition e
            | Inr r \<Rightarrow> PositionClosed r,
            case fst (market_open (exchange self) (self_coin self) (is_buy order) (sz order)
                        (snd (market_close (exchange self) (self_coin self) (exch s)))) of
              Inl e \<Rightarrow> ErrorOpeningPosition e
            | Inr r \<Rightarrow> OrderOpened r]"
  by (simp add: execute_result split: prod.splits)

text \<open>
  C2 fails on the code. \<open>LinReg.predict\<close> has no check for an absent feature, although the
  comment in \<open>BasicTakerStrat.on_tick\<close> leaves that case to the model and the docstring of
  \<open>on_tick\<close> promises \<open>None\<close> for it. On a tick that reaches the strategy while the feature
  calculator holds no price, the feature is absent and \<open>predict\<close> hands it to \<open>np.dot\<close>; what
  ends the call is the \<open>TypeError\<close> of that multiplication, not an insufficient-history
  error of the predictor, and it leaves \<open>on_tick\<close> as an exception where \<open>None\<close> was to be
  returned. Neither \<open>market_close\<close> nor \<open>market_open\<close> is called on that tick.
\<close>

theorem on_tick_absent_feature:
  assumes "data (price (lag s)) = []" and "maxlen (price (lag s)) = 2"
  shows "fst (lag_on_tick p s) = Inr None
       \<and> predict (model self) None = Inl TypeError
       \<and> fst (on_tick self p s) = Inl TypeError
       \<and> calls (snd (on_tick self p s)) = calls s
       \<and> exch (snd (on_tick self p s)) = exch s"
proof -
  have lr: "fst (LogReturn_on_tick (lag s) p) = Inr None"
    using assms
    by (simp add: LogReturn_on_tick_def Window_on_tick_def is_full_def deque_append_def)
  obtain l' where st: "LogReturn_on_tick (lag s) p = (Inr None, l')"
    using lr by (cases "LogReturn_on_tick (lag s) p") simp
  have feature: "fst (lag_on_tick p s) = Inr None"
    by (simp add: lag_on_tick_def st)
  have pred: "predict (model self) None = Inl TypeError"
    by (simp add: predict_def np_dot_def)
  have run: "on_tick self p s
               = (Inl TypeError,
                  s\<lparr>lag := snd (LogReturn_on_tick (lag s) p),
                    stdout := stdout s @ [OnTick p, CalculatedLogReturn None]\<rparr>)"
    using pred
    by (simp add: on_tick_def seq_def print_def lag_on_tick_def raise_or_def st)
  from feature pred run show ?thesis by simp
qed

theorem on_tick_absent_feature_witness:
  "data (price (lag (state_with []))) = [] \<and> maxlen (price (lag (state_with []))) = 2
   \<and> fst (on_tick (btc_strat (Fin 1) (Fin 0)) (Fin 100) (state_with [])) = Inl TypeError
   \<and> calls (snd (on_tick (btc_strat (Fin 1) (Fin 0)) (Fin 100) (state_with []))) = []"
proof -
  have d: "data (price (lag (state_with []))) = []"
    by (simp add: state_with_def)
  have m: "maxlen (price (lag (state_with []))) = 2"
    by (simp add: state_with_def)
  have c: "calls (state_with []) = []"
    by (simp add: state_with_def)
  show ?thesis
    using d m c on_tick_absent_feature [OF d m, of "Fin 100" "btc_strat (Fin 1) (Fin 0)"]
    by simp
qed

text \<open>
  C3, as amended. The decision step maps a forecast of +0.01 to an order with
  \<open>is_buy = True\<close>, a forecast of -0.01 to an order with \<open>is_buy = False\<close>, and a forecast of
  exactly 0 to an order with \<open>is_buy = False\<close> as well: a sell order of the configured size.
\<close>

theorem strategy_sign_of_forecast:
  "is_buy (strategy self (Fin (1 / 100)))
   \<and> \<not> is_buy (strategy self (Fin (- 1 / 100)))
   \<and> strategy self (Fin 0) = \<lparr>coin = self_coin self, sz = self_sz self, is_buy = False\<rparr>"
  by (simp add: strategy_def)

text \<open>
  The claim C3 as stated fails at the forecast 0: the decision step returns a sell order, and
  a tick whose forecast is 0 (weight 1, bias 0, the price 100 twice) sends it to the exchange.
\<close>

theorem strategy_zero_forecast_counterexample:
  "strategy (btc_strat (Fin 1) (Fin 0)) (Fin 0)
     = \<lparr>coin = ''BTC'', sz = Fin (2 / 10000), is_buy = False\<rparr>
   \<and> fst (on_tick (btc_strat (Fin 1) (Fin 0)) (Fin 100) (state_with [Fin 100])) = Inr None
   \<and> calls (snd (on_tick (btc_strat (Fin 1) (Fin 0)) (Fin 100) (state_with [Fin 100])))
       = [MarketClose ''BTC'', MarketOpen ''BTC'' False (Fin (2 / 10000))]"
proof -
  have lr: "LogReturn_on_tick \<lparr>price = \<lparr>data = [Fin 100], maxlen = 2\<rparr>\<rparr> (Fin 100)
              = (Inr (Some (Fin 0)), \<lparr>price = \<lparr>data = [Fin 100, Fin 100], maxlen = 2\<rparr>\<rparr>)"
    by (simp add: LogReturn_on_tick_one)
  have pr: "predict (model (btc_strat (Fin 1) (Fin 0))) (Some (Fin 0)) = Inr (Fin 0)"
    by (simp add: predict_def np_dot_def btc_strat_def)
  have st: "strategy (btc_strat (Fin 1) (Fin 0)) (Fin 0)
              = \<lparr>coin = ''BTC'', sz = Fin (2 / 10000), is_buy = False\<rparr>"
    by (simp add: strategy_def btc_strat_def)
  have co: "self_coin (btc_strat (Fin 1) (Fin 0)) = ''BTC''"
    by (simp add: btc_strat_def)
  have ret: "fst (on_tick (btc_strat (Fin 1) (Fin 0)) (Fin 100) (state_with [Fin 100]))
               = Inr None"
    by (simp add: on_tick_def seq_def print_def lag_on_tick_def raise_or_def state_with_def
                  lr pr st co execute_result
             split: prod.splits)
  have sent: "calls (snd (on_tick (btc_strat (Fin 1) (Fin 0)) (Fin 100) (state_with [Fin 100])))
               = [MarketClose ''BTC'', MarketOpen ''BTC'' False (Fin (2 / 10000))]"
    by (simp add: on_tick_def seq_def print_def lag_on_tick_def raise_or_def state_with_def
                  lr pr st co execute_result
             split: prod.splits)
  from st ret sent show ?thesis by blast
qed

section \<open>The model built from the configuration\<close>

text \<open>
  C10. For every configuration that has a \<open>'model'\<close> section with a \<open>'weight'\<close> entry,
  \<open>create_model\<close> builds the model with both its weights and its bias equal to that entry;
  whatever the \<open>'bias'\<close> entry is set to, or whether it is there at all, the model is the same.
\<close>

theorem create_model_bias_is_weight:
  assumes "params ''model'' = Some (Section m)" and "m ''weight'' = Some w"
  shows "create_model params = Inr \<lparr>weights = w, bias = w\<rparr>
       \<and> create_model (params(''model'' \<mapsto> Section (m(''bias'' := b))))
           = Inr \<lparr>weights = w, bias = w\<rparr>"
  using assms by (simp add: create_model_def dict_getitem_def)

theorem create_model_bias_is_weight_witness:
  "[''model'' \<mapsto> Section [''weight'' \<mapsto> (5::int), ''bias'' \<mapsto> 7]] ''model''
     = Some (Section [''weight'' \<mapsto> 5, ''bias'' \<mapsto> 7])
   \<and> [''weight'' \<mapsto> (5::int), ''bias'' \<mapsto> 7] ''weight'' = Some 5
   \<and> create_model [''model'' \<mapsto> Section [''weight'' \<mapsto> (5::int), ''bias'' \<mapsto> 7]]
       = Inr \<lparr>weights = 5, bias = 5\<rparr>"
proof -
  let ?m = "[''weight'' \<mapsto> (5::int), ''bias'' \<mapsto> 7]"
  let ?params = "[''model'' \<mapsto> Section ?m]"
  have h1: "?params ''model'' = Some (Section ?m)" by simp
  have h2: "?m ''weight'' = Some 5" by simp
  show ?thesis
    using h1 h2 create_model_bias_is_weight [of ?params ?m 5, OF h1 h2] by blast
qed

section \<open>The interval and the scheduler's delay\<close>

text \<open>
  C1 fails on the code. \<open>interval_mins\<close> never converts the prefix to a number: for \<open>'1h'\<close> it
  returns the string of sixty characters \<open>1\<close>, for \<open>'15m'\<close> the string \<open>'15'\<close>, and for no
  input an integer; the timer task that calls it then raises \<open>TypeError\<close> in
  \<open>max(1, no_mins)\<close> before its first sleep.
\<close>

theorem interval_mins_returns_string:
  "interval_mins ''1h'' = Inr (PyStr (replicate 60 (CHR ''1'')))
   \<and> interval_mins ''15m'' = Inr (PyStr ''15'')
   \<and> interval_mins interval \<noteq> Inr (PyInt n)
   \<and> first_sleep ''1h'' now = Inl TypeError"
proof -
  have "concat (replicate 60 ''1'') = replicate 60 (CHR ''1'')"
    by (induction "60::nat") (simp_all add: replicate_app_Cons_same)
  then have h: "interval_mins ''1h'' = Inr (PyStr (replicate 60 (CHR ''1'')))"
    by (simp add: interval_mins_def str_mul_def)
  have m: "interval_mins ''15m'' = Inr (PyStr ''15'')"
    by (simp add: interval_mins_def)
  have n: "interval_mins interval \<noteq> Inr (PyInt n)"
    by (simp add: interval_mins_def Let_def)
  have f: "first_sleep ''1h'' now = Inl TypeError"
    using h by (simp add: first_sleep_def period_mins_def)
  from h m n f show ?thesis by blast
qed

text \<open>
  The loop body of \<open>trade_periodically\<close>, were it handed an integer number of minutes
  \<open>P \<ge> 1\<close>: the period is \<open>P\<close> and the duration handed to the sleep is
  \<open>(P - T.minute mod P) * 60 - T.second - T.microsecond / 1e6\<close> plus the positive epsilon
  0.0001.
\<close>

lemma sleep_duration_formula:
  assumes "1 \<le> P"
  shows "period_mins (PyInt P) = Inr P
       \<and> sleep_duration P T
           = real_of_int ((P - minute T mod P) * 60) - real_of_int (second T)
               - real_of_int (microsecond T) / 1000000 + 1 / 10000
       \<and> seconds_until_next P T < sleep_duration P T"
  using assms
  by (simp add: period_mins_def sleep_duration_def seconds_until_next_def)

lemma first_sleep_raises:
  "first_sleep interval now
     = (case interval_mins interval of Inl e \<Rightarrow> Inl e | Inr v \<Rightarrow> Inl TypeError)"
  by (simp add: first_sleep_def interval_mins_def period_mins_def Let_def)

text \<open>
  C6 fails on the code. The scheduler computes no sleep duration at all: for every interval
  string and every current time \<open>trade_periodically\<close> ends with an exception before its
  first sleep, because the period it gets from \<open>interval_mins\<close> is a string. For the interval
  \<open>'1h'\<close> at 10:37:45.000000 (the example of its own docstring) it raises \<open>TypeError\<close>, where
  the loop body on the period of 60 minutes would have slept 1335.0001 seconds.
\<close>

theorem first_sleep_never_computed:
  "first_sleep interval now \<noteq> Inr d
   \<and> first_sleep ''1h'' \<lparr>hour = 10, minute = 37, second = 45, microsecond = 0\<rparr>
       = Inl TypeError
   \<and> sleep_duration 60 \<lparr>hour = 10, minute = 37, second = 45, microsecond = 0\<rparr>
       = 13350001 / 10000"
proof -
  have never: "first_sleep interval now \<noteq> Inr d"
    by (simp add: first_sleep_raises split: sum.splits)
  have "interval_mins ''1h'' = Inr (PyStr (str_mul ''1'' 60))"
    by (simp add: interval_mins_def)
  then have hour: "first_sleep ''1h'' \<lparr>hour = 10, minute = 37, second = 45, microsecond = 0\<rparr>
                     = Inl TypeError"
    by (simp add: first_sleep_raises)
  have body: "sleep_duration 60 \<lparr>hour = 10, minute = 37, second = 45, microsecond = 0\<rparr>
                = 13350001 / 10000"
    by (simp add: sleep_duration_def seconds_until_next_def)
  from never hour body show ?thesis by blast
qed

section \<open>The reconnect loop: at most one live timer task\<close>

lemma one_timer_initial: "one_timer initial"
  by (simp add: one_timer_def initial_def)

lemma one_timer_step:
  assumes "one_timer s" and "step s e = Some s'"
  shows "one_timer s'"
proof (cases e)
  case Spawn
  with assms show ?thesis by (auto simp: one_timer_def split: if_splits)
next
  case (Fire t)
  with assms show ?thesis by (auto simp: one_timer_def split: if_splits)
next
  case (TimerEnds t)
  with assms show ?thesis by (auto simp: one_timer_def split: if_splits)
next
  case (Exit out)
  with assms show ?thesis by (auto simp: one_timer_def split: if_splits)
next
  case Wake
  with assms show ?thesis by (auto simp: one_timer_def split: if_splits)
qed

lemma one_timer_run:
  assumes "one_timer s" and "run s es = Some s'"
  shows "one_timer s'"
  using assms
proof (induction es arbitrary: s)
  case Nil
  then show ?case by simp
next
  case (Cons e es)
  from Cons.prems(2) obtain s1 where s1: "step s e = Some s1" and rest: "run s1 es = Some s'"
    by (auto split: option.splits)
  from one_timer_step [OF Cons.prems(1) s1] have "one_timer s1" .
  from Cons.IH [OF this rest] show ?case .
qed

text \<open>
  C5. In every state that the reconnect loop reaches, whatever the events before: at most
  one timer task is live, and none unless \<open>main\<close> is inside \<open>connect_and_listen\<close>; when
  \<open>connect_and_listen\<close> exits, on any path, no timer task is live afterwards; outside
  \<open>connect_and_listen\<close> no timer can fire, so that after a disconnect nothing fires until
  the next call has created a new task; and a timer that fires is the task of the current
  call.
\<close>

theorem at_most_one_live_timer:
  assumes "run initial es = Some s"
  shows "length (live s) \<le> 1
       \<and> (pc s \<noteq> Listening \<longrightarrow> live s = [])
       \<and> (\<forall>out s'. step s (Exit out) = Some s' \<longrightarrow> live s' = [] \<and> pc s' \<noteq> Listening)
       \<and> (\<forall>t. pc s \<noteq> Listening \<longrightarrow> step s (Fire t) = None)
       \<and> (\<forall>t s'. step s (Fire t) = Some s' \<longrightarrow> t = timer_task s \<and> pc s = Listening)"
proof -
  have inv: "one_timer s"
    using one_timer_run [OF one_timer_initial assms] .
  have bound: "length (live s) \<le> 1"
    using inv by (auto simp: one_timer_def)
  have outside: "pc s \<noteq> Listening \<longrightarrow> live s = []"
    using inv by (auto simp: one_timer_def)
  have exit: "\<forall>out s'. step s (Exit out) = Some s' \<longrightarrow> live s' = [] \<and> pc s' \<noteq> Listening"
    using inv by (auto simp: one_timer_def split: if_splits outcome.splits)
  have quiet: "\<forall>t. pc s \<noteq> Listening \<longrightarrow> step s (Fire t) = None"
    using inv by (auto simp: one_timer_def)
  have current: "\<forall>t s'. step s (Fire t) = Some s' \<longrightarrow> t = timer_task s \<and> pc s = Listening"
    using inv by (auto simp: one_timer_def split: if_splits)
  from bound outside exit quiet current show ?thesis by blast
qed

theorem at_most_one_live_timer_witness:
  "run initial [Spawn, Fire 0, Exit Disconnected, Wake, Spawn, Fire 1]
     = Some \<lparr>pc = Listening, live = [1], created = 2, timer_task = 1, backoff = 2,
             fired = [0, 1]\<rparr>
   \<and> length (live \<lparr>pc = Listening, live = [1], created = 2, timer_task = 1, backoff = 2,
                   fired = [0, 1]\<rparr>) \<le> 1
   \<and> run initial [Spawn, Fire 0, Exit Disconnected]
       = Some \<lparr>pc = Backoff, live = [], created = 1, timer_task = 0, backoff = 1, fired = [0]\<rparr>
   \<and> step \<lparr>pc = Backoff, live = [], created = 1, timer_task = 0, backoff = 1, fired = [0]\<rparr>
        (Fire 0) = None"
proof -
  let ?s = "\<lparr>pc = Listening, live = [1], created = 2, timer_task = 1, backoff = 2,
             fired = [0, 1]\<rparr>"
  let ?d = "\<lparr>pc = Backoff, live = [], created = 1, timer_task = 0, backoff = 1, fired = [0]\<rparr>"
  have r: "run initial [Spawn, Fire 0, Exit Disconnected, Wake, Spawn, Fire 1] = Some ?s"
    by (simp add: initial_def)
  have d: "run initial [Spawn, Fire 0, Exit Disconnected] = Some ?d"
    by (simp add: initial_def)
  have "length (live ?s) \<le> 1"
    using at_most_one_live_timer [OF r] by blast
  moreover have "pc ?d \<noteq> Listening \<longrightarrow> step ?d (Fire 0) = None"
    using at_most_one_live_timer [OF d] by blast
  then have "step ?d (Fire 0) = None" by simp
  ultimately show ?thesis using r d by blast
qed

end
